theory Spec2Isabelle
  imports Main "HOL-Library.Char_ord" "HOL-Library.List_Lexorder"
begin

section \<open>The item controller of the inventory application\<close>

text \<open>
  This theory embeds the write handlers of \<^verbatim>\<open>src/controllers/itemController.js\<close>:
  the two validation chains, \<^verbatim>\<open>item_create_post\<close>, \<^verbatim>\<open>item_delete_get\<close>,
  \<^verbatim>\<open>item_delete_post\<close> and \<^verbatim>\<open>item_update_post\<close>.

  A handler is a function from the request and the state of the outside world (the
  three collections and the image host) to the calls it makes on \<^verbatim>\<open>res\<close>, in
  order, and the new state. Strings are lists of 8-bit characters; the fields of a
  posted form are text, so \<^verbatim>\<open>req.body\<close> maps a field name to the text posted
  under it.
\<close>

subsection \<open>Sanitizers and validators applied by the chains\<close>

text \<open>
  \<^verbatim>\<open>trim()\<close> removes the characters matched by the regular expression class
  \<^verbatim>\<open>\s\<close> from both ends: tab, line feed, vertical tab, form feed, carriage return,
  space and no-break space are the ones among the 8-bit characters.
\<close>

definition whitespace :: "char \<Rightarrow> bool" where
  "whitespace c =
     (c \<in> set [CHR 0x09, CHR 0x0A, CHR 0x0B, CHR 0x0C, CHR 0x0D, CHR 0x20, CHR 0xA0])"

definition ltrim :: "string \<Rightarrow> string" where
  "ltrim str = dropWhile whitespace str"

definition rtrim :: "string \<Rightarrow> string" where
  "rtrim str = rev (dropWhile whitespace (rev str))"

definition trim :: "string \<Rightarrow> string" where
  "trim str = rtrim (ltrim str)"

text \<open>\<^verbatim>\<open>isLength({ min: n })\<close>: at least \<open>n\<close> characters, no upper bound.\<close>

definition isLength :: "string \<Rightarrow> nat \<Rightarrow> bool" where
  "isLength str n = (n \<le> length str)"

text \<open>
  \<^verbatim>\<open>escape()\<close> replaces, one character after the other and in this order, the
  ampersand, the double quote, the single quote, the angle brackets, the slash, the
  backslash and the backtick by their HTML entities.
\<close>

definition replace_all :: "char \<Rightarrow> string \<Rightarrow> string \<Rightarrow> string" where
  "replace_all c r str = concat (map (\<lambda>x. if x = c then r else [x]) str)"

definition escape :: "string \<Rightarrow> string" where
  "escape str =
     replace_all (CHR 0x60) ''&#96;''
      (replace_all (CHR 0x5C) ''&#x5C;''
       (replace_all (CHR ''/'') ''&#x2F;''
        (replace_all (CHR ''>'') ''&gt;''
         (replace_all (CHR ''<'') ''&lt;''
          (replace_all (CHR 0x27) ''&#x27;''
           (replace_all (CHR 0x22) ''&quot;''
            (replace_all (CHR ''&'') ''&amp;'' str)))))))"

definition startsWith :: "string \<Rightarrow> string \<Rightarrow> bool" where
  "startsWith str p = (take (length p) str = p)"

subsection \<open>Requests\<close>

type_synonym objectid = string

record upload_file =
  mimetype :: string
  buffer :: string

record request =
  params_id :: objectid
  body :: "string \<Rightarrow> string"
  req_file :: "upload_file option"

subsection \<open>Validation chains\<close>

text \<open>
  A failed validator leaves an entry with the chain's field and message in the
  request's validation result; \<^verbatim>\<open>errors.array()\<close> lists the entries in the order
  the chains ran. (The entry's other members, the kind, the offending value and the
  location, are not modelled.)
\<close>

record verror =
  path :: string
  msg :: string

datatype step = Trim | IsLength nat | Escape

datatype validator =
    Body string string "step list"
  | Check_custom string "request \<Rightarrow> bool" string

text \<open>
  The steps of a chain run from left to right on the field's value. A sanitizer
  replaces the value, a validator that fails records the error, and the steps after
  a failed validator still run (no chain here bails out).
\<close>

fun run_chain :: "string \<Rightarrow> string \<Rightarrow> step list \<Rightarrow> string \<Rightarrow> string \<times> verror list" where
  "run_chain p m [] v = (v, [])"
| "run_chain p m (Trim # ss) v = run_chain p m ss (trim v)"
| "run_chain p m (Escape # ss) v = run_chain p m ss (escape v)"
| "run_chain p m (IsLength n # ss) v =
     (if isLength v n then run_chain p m ss v
      else (case run_chain p m ss v of (v', es) \<Rightarrow> (v', \<lparr>path = p, msg = m\<rparr> # es)))"

fun run_validator :: "validator \<Rightarrow> request \<Rightarrow> request \<times> verror list" where
  "run_validator (Body p m ss) req =
     (case run_chain p m ss (body req p) of
        (v, es) \<Rightarrow> (req\<lparr>body := (body req)(p := v)\<rparr>, es))"
| "run_validator (Check_custom p f m) req =
     (if f req then (req, []) else (req, [\<lparr>path = p, msg = m\<rparr>]))"

text \<open>The middlewares of a route run in order; each sees the request the last left.\<close>

fun run_validators :: "validator list \<Rightarrow> request \<Rightarrow> request \<times> verror list" where
  "run_validators [] req = (req, [])"
| "run_validators (c # cs) req =
     (case run_validator c req of
        (req1, es1) \<Rightarrow> (case run_validators cs req1 of
           (req2, es2) \<Rightarrow> (req2, es1 @ es2)))"

text \<open>The custom validator of the file part, lines 102-112 and 248-258.\<close>

definition itemImage_custom :: "request \<Rightarrow> bool" where
  "itemImage_custom req =
     (case req_file req of
        None \<Rightarrow> True
      | Some f \<Rightarrow> (if startsWith (mimetype f) ''image/'' then True else False))"

text \<open>Lines 90-113.\<close>

definition item_create_post_validators :: "validator list" where
  "item_create_post_validators =
     [Body ''name'' ''Name must not be empty.'' [Trim, IsLength 1, Escape],
      Body ''description'' ''Description must not be empty.'' [Trim, IsLength 3, Escape],
      Body ''quality'' ''Quality must not be empty.'' [Trim, IsLength 1, Escape],
      Body ''slot'' ''Slot must not be empty'' [Trim, IsLength 1, Escape],
      Check_custom ''itemImage'' itemImage_custom ''Please submit a image file'']"

text \<open>Lines 236-259.\<close>

definition item_update_post_validators :: "validator list" where
  "item_update_post_validators =
     [Body ''name'' ''Name must not be empty.'' [Trim, IsLength 1, Escape],
      Body ''description'' ''Description must not be empty.'' [Trim, IsLength 3, Escape],
      Body ''quality'' ''Quality must not be empty.'' [Trim, IsLength 1, Escape],
      Body ''slot'' ''Slot must not be empty'' [Trim, IsLength 1, Escape],
      Check_custom ''itemImage'' itemImage_custom ''Please submit a image file'']"

text \<open>
  The Validation Stage as the specification words it: one rule per field, each
  with its message, and the rule of the optional file.
\<close>

definition spec_rule :: "bool \<Rightarrow> string \<Rightarrow> string \<Rightarrow> verror list" where
  "spec_rule violated p m = (if violated then [\<lparr>path = p, msg = m\<rparr>] else [])"

definition spec_file_violated :: "upload_file option \<Rightarrow> bool" where
  "spec_file_violated fo =
     (case fo of None \<Rightarrow> False | Some f \<Rightarrow> take 6 (mimetype f) \<noteq> ''image/'')"

definition spec_validation_stage :: "request \<Rightarrow> verror list" where
  "spec_validation_stage req =
     spec_rule (length (trim (body req ''name'')) < 1) ''name'' ''Name must not be empty.''
     @ spec_rule (length (trim (body req ''description'')) < 3)
         ''description'' ''Description must not be empty.''
     @ spec_rule (length (trim (body req ''quality'')) < 1)
         ''quality'' ''Quality must not be empty.''
     @ spec_rule (length (trim (body req ''slot'')) < 1) ''slot'' ''Slot must not be empty''
     @ spec_rule (spec_file_violated (req_file req)) ''itemImage'' ''Please submit a image file''"

definition spec_compliant :: "request \<Rightarrow> bool" where
  "spec_compliant req =
     (1 \<le> length (trim (body req ''name''))
      \<and> 3 \<le> length (trim (body req ''description''))
      \<and> 1 \<le> length (trim (body req ''quality''))
      \<and> 1 \<le> length (trim (body req ''slot''))
      \<and> \<not> spec_file_violated (req_file req))"

text \<open>What the chains leave in \<^verbatim>\<open>req.body\<close>: every field trimmed and escaped.\<close>

definition sanitized :: "request \<Rightarrow> request" where
  "sanitized req =
     req\<lparr>body := (body req)
       (''name'' := escape (trim (body req ''name'')),
        ''description'' := escape (trim (body req ''description'')),
        ''quality'' := escape (trim (body req ''quality'')),
        ''slot'' := escape (trim (body req ''slot'')))\<rparr>"

subsection \<open>Documents and collections\<close>

text \<open>
  Modelled from the spec: the schemas under \<^verbatim>\<open>models/\<close> are not among the
  sources, so the documents carry the fields the specification's data model lists.
  An item's \<^verbatim>\<open>imgUrl\<close> is undefined (\<open>None\<close>) until a handler sets it.
\<close>

record item =
  item_id :: objectid
  name :: string
  description :: string
  quality :: string
  slot :: objectid
  imgUrl :: "string option"

record slot_doc =
  slot_id :: objectid
  slot_name :: string

record iteminstance =
  instance_id :: objectid
  instance_item :: objectid
  seller :: objectid
  num_of_stocks :: nat

text \<open>The options object handed to \<^verbatim>\<open>cloudinary.uploader.upload\<close>.\<close>

record upload_options =
  resource_type :: string
  folder :: string
  public_id :: "objectid option"
  overwrite :: "bool option"
  invalidate :: "bool option"

text \<open>
  The state outside the handler: the Item collection keyed by \<^verbatim>\<open>_id\<close>, the
  ItemInstance and Slot collections in their natural order, and the uploads the image
  host has received so far.
\<close>

record world =
  item_coll :: "objectid \<rightharpoonup> item"
  iteminstance_coll :: "iteminstance list"
  slot_coll :: "slot_doc list"
  cloudinary_uploads :: "(string \<times> upload_options) list"

text \<open>
  What a handler takes from its surroundings: the identifier \<^verbatim>\<open>new Item\<close> assigns,
  the \<^verbatim>\<open>url\<close> virtual of the item schema (declared in \<^verbatim>\<open>models/item.js\<close>, which
  is not among the sources), the base64 encoding of a buffer and the
  \<^verbatim>\<open>secure_url\<close> the image host answers an upload with.
\<close>

record env =
  new_objectid :: objectid
  item_url :: "item \<Rightarrow> string"
  toBase64 :: "string \<Rightarrow> string"
  secure_url :: "string \<Rightarrow> upload_options \<Rightarrow> string"

text \<open>
  Modelled from the spec: the queries of the Catalog Store, after the contracts of
  the specification's section 6 (\<open>findById\<close>, \<open>find\<close>, \<open>insert\<close>, \<open>updateById\<close>,
  \<open>deleteById\<close>); the database driver behind them is a library. The queries are
  total: a failure of the store is outside the handlers.
\<close>

definition Item_findById :: "objectid \<Rightarrow> world \<Rightarrow> item option" where
  "Item_findById i w = item_coll w i"

definition Item_save :: "item \<Rightarrow> world \<Rightarrow> world" where
  "Item_save it w = w\<lparr>item_coll := (item_coll w)(item_id it \<mapsto> it)\<rparr>"

definition Item_findByIdAndDelete :: "objectid \<Rightarrow> world \<Rightarrow> world" where
  "Item_findByIdAndDelete i w = w\<lparr>item_coll := (item_coll w)(i := None)\<rparr>"

text \<open>
  \<open>updateById\<close> overwrites, in the document stored under the identifier, the fields
  that the update sets; without such a document nothing is written.
\<close>

definition Item_findByIdAndUpdate :: "objectid \<Rightarrow> item \<Rightarrow> world \<Rightarrow> world" where
  "Item_findByIdAndUpdate i upd w =
     (case item_coll w i of
        None \<Rightarrow> w
      | Some old \<Rightarrow>
          w\<lparr>item_coll := (item_coll w)(i \<mapsto>
             old\<lparr>name := name upd, description := description upd,
                 quality := quality upd, slot := slot upd,
                 imgUrl := (case imgUrl upd of None \<Rightarrow> imgUrl old | Some u \<Rightarrow> Some u)\<rparr>)\<rparr>)"

definition ItemInstance_find :: "objectid \<Rightarrow> world \<Rightarrow> iteminstance list" where
  "ItemInstance_find i w = filter (\<lambda>x. instance_item x = i) (iteminstance_coll w)"

definition populate_item :: "world \<Rightarrow> iteminstance list \<Rightarrow> (iteminstance \<times> item option) list" where
  "populate_item w xs = map (\<lambda>x. (x, item_coll w (instance_item x))) xs"

definition populate_slot :: "world \<Rightarrow> item \<Rightarrow> item \<times> slot_doc option" where
  "populate_slot w it = (it, find (\<lambda>s. slot_id s = slot it) (slot_coll w))"

definition Slot_find :: "world \<Rightarrow> slot_doc list" where
  "Slot_find w = slot_coll w"

text \<open>\<^verbatim>\<open>Slot.find({}).sort({ name: 1 })\<close>; equal names keep their stored order.\<close>

definition Slot_find_sort_name :: "world \<Rightarrow> slot_doc list" where
  "Slot_find_sort_name w = sort_key slot_name (slot_coll w)"

definition cloudinary_upload :: "string \<Rightarrow> upload_options \<Rightarrow> world \<Rightarrow> world" where
  "cloudinary_upload dataURI opts w =
     w\<lparr>cloudinary_uploads := cloudinary_uploads w @ [(dataURI, opts)]\<rparr>"

subsection \<open>Responses\<close>

text \<open>
  The value a view receives under \<^verbatim>\<open>item\<close>: \<^verbatim>\<open>null\<close>, a document, or a document
  with its slot populated.
\<close>

datatype item_local = Null | Doc item | Doc_slot item "slot_doc option"

definition found :: "item option \<Rightarrow> item_local" where
  "found io = (case io of None \<Rightarrow> Null | Some it \<Rightarrow> Doc it)"

definition found_slot :: "world \<Rightarrow> item option \<Rightarrow> item_local" where
  "found_slot w io =
     (case io of
        None \<Rightarrow> Null
      | Some it \<Rightarrow> (case populate_slot w it of (it', s) \<Rightarrow> Doc_slot it' s))"

text \<open>The locals of a render call; a key the call does not pass is \<open>None\<close>.\<close>

record locals =
  title :: string
  slots :: "slot_doc list option"
  item :: "item_local option"
  itemInstances :: "(iteminstance \<times> item option) list option"
  errors :: "verror list option"
  code :: "string option"
  form_type :: "string option"
  error :: "string option"

definition titled :: "string \<Rightarrow> locals" where
  "titled t =
     \<lparr>title = t, slots = None, item = None, itemInstances = None, errors = None,
      code = None, form_type = None, error = None\<rparr>"

datatype response = Redirect string | Render string locals

subsection \<open>The handlers\<close>

text \<open>
  A handler returns the calls it makes on \<^verbatim>\<open>res\<close>, in the order it makes them,
  and the state it leaves. The first call is the response the client receives.
\<close>

text \<open>\<^verbatim>\<open>item_create_post\<close>, lines 89-164.\<close>

definition item_create_post :: "env \<Rightarrow> request \<Rightarrow> world \<Rightarrow> response list \<times> world" where
  "item_create_post e req0 w =
     (case run_validators item_create_post_validators req0 of
        (req, errs) \<Rightarrow>
          (let it = \<lparr>item_id = new_objectid e, name = body req ''name'',
                     description = body req ''description'',
                     quality = body req ''quality'', slot = body req ''slot'',
                     imgUrl = None\<rparr>
           in if errs \<noteq> [] then
                (let allSlots = Slot_find w
                 in ([Render ''item_form''
                        ((titled ''Create Item'')
                           \<lparr>slots := Some allSlots, item := Some (Doc it),
                            errors := Some errs\<rparr>)], w))
              else
                (case req_file req of
                   Some f \<Rightarrow>
                     (let b64 = toBase64 e (buffer f);
                          dataURI = ''data:'' @ mimetype f @ '';base64,'' @ b64;
                          opts = \<lparr>resource_type = ''image'', folder = ''wow_inventory'',
                                  public_id = None, overwrite = None, invalidate = None\<rparr>;
                          w1 = cloudinary_upload dataURI opts w;
                          it1 = it\<lparr>imgUrl := Some (secure_url e dataURI opts)\<rparr>
                      in ([Redirect (item_url e it1)], Item_save it1 w1))
                 | None \<Rightarrow>
                     (let it1 = it\<lparr>imgUrl := Some ''#''\<rparr>
                      in ([Redirect (item_url e it1)], Item_save it1 w)))))"

text \<open>
  \<^verbatim>\<open>item_delete_get\<close>, lines 167-184. The branch of the missing item redirects
  and does not return, so the render call below it is made as well.
\<close>

definition item_delete_get :: "request \<Rightarrow> world \<Rightarrow> response list \<times> world" where
  "item_delete_get req w =
     (let it = Item_findById (params_id req) w;
          insts = populate_item w (ItemInstance_find (params_id req) w)
      in ((if it = None then [Redirect ''/catalog/items''] else [])
          @ [Render ''item_delete''
               ((titled ''Delete Item'')
                  \<lparr>item := Some (found it), itemInstances := Some insts\<rparr>)], w))"

text \<open>\<^verbatim>\<open>item_delete_post\<close>, lines 187-209.\<close>

definition item_delete_post :: "request \<Rightarrow> world \<Rightarrow> response list \<times> world" where
  "item_delete_post req w =
     (let it = Item_findById (params_id req) w;
          insts = populate_item w (ItemInstance_find (params_id req) w)
      in if length insts > 0 \<or> body req ''security_code'' \<noteq> ''123'' then
           ([Render ''item_delete''
               ((titled ''Delete Item'')
                  \<lparr>item := Some (found it), itemInstances := Some insts,
                   code := Some (body req ''security_code''),
                   error := Some ''Wrong security code.''\<rparr>)], w)
         else
           ([Redirect ''/catalog/items''],
            Item_findByIdAndDelete (body req ''itemid'') w))"

text \<open>\<^verbatim>\<open>item_update_post\<close>, lines 235-320.\<close>

definition item_update_post :: "env \<Rightarrow> request \<Rightarrow> world \<Rightarrow> response list \<times> world" where
  "item_update_post e req0 w =
     (case run_validators item_update_post_validators req0 of
        (req, errs) \<Rightarrow>
          (let it = \<lparr>item_id = params_id req, name = body req ''name'',
                     description = body req ''description'',
                     quality = body req ''quality'', slot = body req ''slot'',
                     imgUrl = None\<rparr>
           in if errs \<noteq> [] \<or> body req ''security_code'' \<noteq> ''123'' then
                (let stored = found_slot w (Item_findById (params_id req) w);
                     sorted_slots = Slot_find_sort_name w
                 in ([Render ''item_form''
                        ((titled ''Update Item'')
                           \<lparr>item := Some stored, slots := Some sorted_slots,
                            errors := Some errs,
                            code := Some (body req ''security_code''),
                            form_type := Some ''update'',
                            error := Some (if body req ''security_code'' \<noteq> ''123''
                                           then ''Wrong security code.'' else '''')\<rparr>)], w))
              else
                (case req_file req of
                   Some f \<Rightarrow>
                     (let b64 = toBase64 e (buffer f);
                          dataURI = ''data:'' @ mimetype f @ '';base64,'' @ b64;
                          opts = \<lparr>resource_type = ''image'', folder = ''wow_inventory'',
                                  public_id = Some (item_id it), overwrite = Some True,
                                  invalidate = Some True\<rparr>;
                          w1 = cloudinary_upload dataURI opts w;
                          it1 = it\<lparr>imgUrl := Some (secure_url e dataURI opts)\<rparr>
                      in ([Redirect (item_url e it1)],
                          Item_findByIdAndUpdate (params_id req) it1 w1))
                 | None \<Rightarrow>
                     (let it1 = it\<lparr>imgUrl := Some ''#''\<rparr>
                      in ([Redirect (item_url e it1)],
                          Item_findByIdAndUpdate (params_id req) it1 w)))))"

subsection \<open>Sample data\<close>

text \<open>
  A small catalog for evaluating the handlers: two slots, two items and one stocked
  instance of the shield; a posted form is given by its fields.
\<close>

definition form :: "(string \<times> string) list \<Rightarrow> string \<Rightarrow> string" where
  "form kvs k = (case map_of kvs k of None \<Rightarrow> '''' | Some v \<Rightarrow> v)"

definition sword :: item where
  "sword = \<lparr>item_id = ''i1'', name = ''Sword'', description = ''A sharp blade'',
            quality = ''Epic'', slot = ''s1'', imgUrl = Some ''https://img.example/i1.png''\<rparr>"

definition shield :: item where
  "shield = \<lparr>item_id = ''i2'', name = ''Shield'', description = ''A round shield'',
             quality = ''Rare'', slot = ''s2'', imgUrl = Some ''#''\<rparr>"

definition catalog :: world where
  "catalog =
     \<lparr>item_coll = [''i1'' \<mapsto> sword, ''i2'' \<mapsto> shield],
      iteminstance_coll =
        [\<lparr>instance_id = ''n1'', instance_item = ''i2'', seller = ''v1'', num_of_stocks = 4\<rparr>],
      slot_coll = [\<lparr>slot_id = ''s2'', slot_name = ''Off hand''\<rparr>,
                   \<lparr>slot_id = ''s1'', slot_name = ''Main hand''\<rparr>],
      cloudinary_uploads = []\<rparr>"

definition sample_env :: env where
  "sample_env =
     \<lparr>new_objectid = ''i3'', item_url = (\<lambda>it. ''/catalog/item/'' @ item_id it),
      toBase64 = (\<lambda>b. b), secure_url = (\<lambda>d opts. ''https://img.example/new.png'')\<rparr>"

text \<open>Requests: a create form with a blank name and a text file, the create scenario
  of the nameless item, a complete form for the sword, its update under a given
  security code, a delete confirmation posted to route \<open>i\<close> with the hidden field
  \<open>j\<close>, and the delete page of an item that is not stored.\<close>

definition blank_name_post :: request where
  "blank_name_post =
     \<lparr>params_id = ''i1'',
      body = form [(''name'', ''  ''), (''description'', ''ok ok''), (''quality'', ''Epic''),
                   (''slot'', ''s1''), (''security_code'', ''123'')],
      req_file = Some \<lparr>mimetype = ''text/plain'', buffer = ''abc''\<rparr>\<rparr>"

definition nameless_create :: request where
  "nameless_create =
     \<lparr>params_id = '''',
      body = form [(''name'', ''''), (''description'', ''ok ok''), (''quality'', ''Epic''),
                   (''slot'', ''s1'')],
      req_file = None\<rparr>"

definition sword_fields :: "(string \<times> string) list" where
  "sword_fields =
     [(''name'', '' Sword''), (''description'', ''A <sharp> blade''), (''quality'', ''Epic''),
      (''slot'', ''s1'')]"

definition sword_create :: request where
  "sword_create = \<lparr>params_id = '''', body = form sword_fields, req_file = None\<rparr>"

definition sword_update :: "string \<Rightarrow> request" where
  "sword_update c =
     \<lparr>params_id = ''i1'', body = form (sword_fields @ [(''security_code'', c)]),
      req_file = None\<rparr>"

definition delete_post :: "objectid \<Rightarrow> objectid \<Rightarrow> string \<Rightarrow> request" where
  "delete_post i j c =
     \<lparr>params_id = i, body = form [(''itemid'', j), (''security_code'', c)], req_file = None\<rparr>"

definition missing_item_get :: request where
  "missing_item_get = \<lparr>params_id = ''i9'', body = form [], req_file = None\<rparr>"

section \<open>Properties of the validation chains\<close>

lemma run_chain_field:
  "run_chain p m [Trim, IsLength n, Escape] v =
     (escape (trim v), spec_rule (length (trim v) < n) p m)"
  by (simp add: isLength_def spec_rule_def not_le)

lemma run_body_field:
  "run_validator (Body p m [Trim, IsLength n, Escape]) req =
     (req\<lparr>body := (body req)(p := escape (trim (body req p)))\<rparr>,
      spec_rule (length (trim (body req p)) < n) p m)"
  by (simp only: run_validator.simps run_chain_field split_conv)

lemma run_custom_file:
  "run_validator (Check_custom p itemImage_custom m) req =
     (req, spec_rule (spec_file_violated (req_file req)) p m)"
  by (simp add: itemImage_custom_def spec_file_violated_def spec_rule_def startsWith_def
      eval_nat_numeral split: option.splits)

lemma create_validators_run:
  "run_validators item_create_post_validators req = (sanitized req, spec_validation_stage req)"
  unfolding item_create_post_validators_def run_validators.simps run_body_field run_custom_file
  by (simp add: sanitized_def spec_validation_stage_def)

lemma update_validators_run:
  "run_validators item_update_post_validators req = (sanitized req, spec_validation_stage req)"
  unfolding item_update_post_validators_def run_validators.simps run_body_field run_custom_file
  by (simp add: sanitized_def spec_validation_stage_def)

lemma spec_rule_Nil: "(spec_rule b p m = []) = (\<not> b)"
  by (simp add: spec_rule_def)

lemma spec_stage_Nil: "(spec_validation_stage req = []) = spec_compliant req"
  by (auto simp: spec_validation_stage_def spec_compliant_def spec_rule_Nil Suc_le_eq not_less)

text \<open>
  C4. The chains of the create route and of the update route return the same errors:
  for each field whose trimmed value is too short (name, quality and slot below one
  character, description below three) the field's message, for a file whose content
  type does not begin with \<^verbatim>\<open>image/\<close> the file's message, in the order of the
  chains; and no error exactly when no rule is violated. An absent file passes.
\<close>

theorem validation_stage_errors:
  "snd (run_validators item_create_post_validators req) = spec_validation_stage req
   \<and> snd (run_validators item_update_post_validators req) = spec_validation_stage req
   \<and> ((snd (run_validators item_create_post_validators req) = []) = spec_compliant req)
   \<and> ((snd (run_validators item_update_post_validators req) = []) = spec_compliant req)"
  by (simp add: create_validators_run update_validators_run spec_stage_Nil)

theorem validation_stage_errors_witness:
  "snd (run_validators item_create_post_validators blank_name_post) =
     [\<lparr>path = ''name'', msg = ''Name must not be empty.''\<rparr>,
      \<lparr>path = ''itemImage'', msg = ''Please submit a image file''\<rparr>]
   \<and> \<not> spec_compliant blank_name_post"
  using validation_stage_errors [of blank_name_post]
  by (simp add: spec_validation_stage_def spec_rule_def spec_file_violated_def spec_compliant_def
      blank_name_post_def form_def trim_def ltrim_def rtrim_def whitespace_def)

section \<open>Properties of the handlers\<close>

lemmas eval_strings = form_def trim_def ltrim_def rtrim_def whitespace_def escape_def
  replace_all_def

lemma sanitized_simps:
  "params_id (sanitized req) = params_id req"
  "req_file (sanitized req) = req_file req"
  "body (sanitized req) ''security_code'' = body req ''security_code''"
  "body (sanitized req) ''name'' = escape (trim (body req ''name''))"
  "body (sanitized req) ''description'' = escape (trim (body req ''description''))"
  "body (sanitized req) ''quality'' = escape (trim (body req ''quality''))"
  "body (sanitized req) ''slot'' = escape (trim (body req ''slot''))"
  by (simp_all add: sanitized_def)

subsection \<open>Create\<close>

lemma nameless_errors:
  "snd (run_validators item_create_post_validators nameless_create) =
     [\<lparr>path = ''name'', msg = ''Name must not be empty.''\<rparr>]"
  by (simp add: create_validators_run spec_validation_stage_def spec_rule_def
      spec_file_violated_def nameless_create_def eval_strings)

lemma sword_create_errors:
  "snd (run_validators item_create_post_validators sword_create) = []"
  by (simp add: create_validators_run spec_validation_stage_def spec_rule_def
      spec_file_violated_def sword_create_def sword_fields_def eval_strings)

text \<open>
  C7. A create request whose validation leaves errors persists nothing: the handler
  reads the slot list and makes one call, the render of the item form with the
  candidate built from the trimmed and escaped fields and with the error list; the
  state is the one it found.
\<close>

theorem create_invalid_renders_form:
  assumes "snd (run_validators item_create_post_validators req) \<noteq> []"
  shows "item_create_post e req w =
    ([Render ''item_form''
        ((titled ''Create Item'')
           \<lparr>slots := Some (slot_coll w),
            item := Some (Doc \<lparr>item_id = new_objectid e,
                                name = escape (trim (body req ''name'')),
                                description = escape (trim (body req ''description'')),
                                quality = escape (trim (body req ''quality'')),
                                slot = escape (trim (body req ''slot'')),
                                imgUrl = None\<rparr>),
            errors := Some (snd (run_validators item_create_post_validators req))\<rparr>)], w)"
  using assms
  by (simp add: item_create_post_def create_validators_run sanitized_simps Slot_find_def)

theorem create_invalid_renders_form_witness:
  "snd (run_validators item_create_post_validators nameless_create) \<noteq> []
   \<and> item_create_post sample_env nameless_create catalog =
      ([Render ''item_form''
          ((titled ''Create Item'')
             \<lparr>slots := Some [\<lparr>slot_id = ''s2'', slot_name = ''Off hand''\<rparr>,
                             \<lparr>slot_id = ''s1'', slot_name = ''Main hand''\<rparr>],
              item := Some (Doc \<lparr>item_id = ''i3'', name = '''', description = ''ok ok'',
                                  quality = ''Epic'', slot = ''s1'', imgUrl = None\<rparr>),
              errors := Some [\<lparr>path = ''name'', msg = ''Name must not be empty.''\<rparr>]\<rparr>)],
       catalog)"
proof -
  have ne: "snd (run_validators item_create_post_validators nameless_create) \<noteq> []"
    by (simp add: nameless_errors)
  have body: "body nameless_create = form [(''name'', ''''), (''description'', ''ok ok''),
      (''quality'', ''Epic''), (''slot'', ''s1'')]"
    by (simp add: nameless_create_def)
  show ?thesis
    using create_invalid_renders_form [OF ne, of sample_env catalog]
    by (simp add: nameless_errors body eval_strings sample_env_def catalog_def)
qed

text \<open>
  C6. A create request that passes validation and carries no file stores, under the
  identifier of the new document, the item built from the trimmed and escaped fields
  with \<^verbatim>\<open>imgUrl\<close> equal to \<^verbatim>\<open>#\<close>, leaves every other record as it was, and
  answers with the redirect to that item's \<^verbatim>\<open>url\<close>.
\<close>

theorem create_valid_no_file_persists:
  assumes "snd (run_validators item_create_post_validators req) = []"
    and "req_file req = None"
  shows "let it = \<lparr>item_id = new_objectid e,
                    name = escape (trim (body req ''name'')),
                    description = escape (trim (body req ''description'')),
                    quality = escape (trim (body req ''quality'')),
                    slot = escape (trim (body req ''slot'')),
                    imgUrl = Some ''#''\<rparr>
         in item_create_post e req w =
              ([Redirect (item_url e it)],
               w\<lparr>item_coll := (item_coll w)(new_objectid e \<mapsto> it)\<rparr>)"
  using assms
  by (simp add: item_create_post_def create_validators_run sanitized_simps Item_save_def)

theorem create_valid_no_file_persists_witness:
  "snd (run_validators item_create_post_validators sword_create) = []
   \<and> req_file sword_create = None
   \<and> item_create_post sample_env sword_create catalog =
      ([Redirect ''/catalog/item/i3''],
       catalog\<lparr>item_coll := (item_coll catalog)(''i3'' \<mapsto>
          \<lparr>item_id = ''i3'', name = ''Sword'', description = ''A &lt;sharp&gt; blade'',
           quality = ''Epic'', slot = ''s1'', imgUrl = Some ''#''\<rparr>)\<rparr>)"
proof -
  have nf: "req_file sword_create = None"
    by (simp add: sword_create_def)
  have body: "body sword_create = form sword_fields"
    by (simp add: sword_create_def)
  show ?thesis
    using create_valid_no_file_persists [OF sword_create_errors nf, of sample_env catalog]
    by (simp add: sword_create_errors nf body sword_fields_def eval_strings sample_env_def Let_def)
qed

subsection \<open>Update\<close>

lemma sword_update_errors:
  "snd (run_validators item_update_post_validators (sword_update c)) = []"
  by (simp add: update_validators_run spec_validation_stage_def spec_rule_def
      spec_file_violated_def sword_update_def sword_fields_def eval_strings)

lemma sword_update_code: "body (sword_update c) ''security_code'' = c"
  by (simp add: sword_update_def sword_fields_def form_def)

lemma sorted_catalog_slots:
  "sort_key slot_name (slot_coll catalog) =
     [\<lparr>slot_id = ''s1'', slot_name = ''Main hand''\<rparr>,
      \<lparr>slot_id = ''s2'', slot_name = ''Off hand''\<rparr>]"
  by (simp add: catalog_def)

text \<open>
  C2. An update request whose security code is not \<^verbatim>\<open>123\<close> changes nothing,
  whatever the validation found: the handler reads the stored item (with its slot)
  and the slots sorted by name, and makes one call, the render of the item form with
  the validation errors, the code as posted and the error
  \<^verbatim>\<open>Wrong security code.\<close>; the state is the one it found.
\<close>

theorem update_wrong_code_no_mutation:
  assumes "body req ''security_code'' \<noteq> ''123''"
  shows "item_update_post e req w =
    ([Render ''item_form''
        ((titled ''Update Item'')
           \<lparr>item := Some (found_slot w (item_coll w (params_id req))),
            slots := Some (sort_key slot_name (slot_coll w)),
            errors := Some (snd (run_validators item_update_post_validators req)),
            code := Some (body req ''security_code''),
            form_type := Some ''update'',
            error := Some ''Wrong security code.''\<rparr>)], w)"
  using assms
  by (simp add: item_update_post_def update_validators_run sanitized_simps
      Slot_find_sort_name_def Item_findById_def)

theorem update_wrong_code_no_mutation_witness:
  "body (sword_update ''000'') ''security_code'' \<noteq> ''123''
   \<and> item_update_post sample_env (sword_update ''000'') catalog =
      ([Render ''item_form''
          ((titled ''Update Item'')
             \<lparr>item := Some (Doc_slot sword (Some \<lparr>slot_id = ''s1'', slot_name = ''Main hand''\<rparr>)),
              slots := Some [\<lparr>slot_id = ''s1'', slot_name = ''Main hand''\<rparr>,
                             \<lparr>slot_id = ''s2'', slot_name = ''Off hand''\<rparr>],
              errors := Some [],
              code := Some ''000'',
              form_type := Some ''update'',
              error := Some ''Wrong security code.''\<rparr>)], catalog)"
proof -
  have wrong: "body (sword_update ''000'') ''security_code'' \<noteq> ''123''"
    by (simp add: sword_update_code)
  have stored: "found_slot catalog (item_coll catalog (params_id (sword_update ''000''))) =
      Doc_slot sword (Some \<lparr>slot_id = ''s1'', slot_name = ''Main hand''\<rparr>)"
    by (simp add: found_slot_def populate_slot_def catalog_def sword_update_def sword_def)
  show ?thesis
    using update_wrong_code_no_mutation [OF wrong, of sample_env catalog]
    by (simp add: sword_update_code sword_update_errors stored sorted_catalog_slots)
qed

text \<open>
  C5. An update request that passes validation, carries the security code
  \<^verbatim>\<open>123\<close> and no file leaves, under the route's identifier, the stored item with
  its fields replaced by the trimmed and escaped ones and its \<^verbatim>\<open>imgUrl\<close> set to
  \<^verbatim>\<open>#\<close>, whatever image address was stored before.
\<close>

theorem update_no_file_sets_sentinel:
  assumes "snd (run_validators item_update_post_validators req) = []"
    and "body req ''security_code'' = ''123''"
    and "req_file req = None"
    and "item_coll w (params_id req) = Some old"
  shows "item_coll (snd (item_update_post e req w)) (params_id req) =
           Some (old\<lparr>name := escape (trim (body req ''name'')),
                      description := escape (trim (body req ''description'')),
                      quality := escape (trim (body req ''quality'')),
                      slot := escape (trim (body req ''slot'')),
                      imgUrl := Some ''#''\<rparr>)"
  using assms
  by (simp add: item_update_post_def update_validators_run sanitized_simps
      Item_findByIdAndUpdate_def)

theorem update_no_file_sets_sentinel_witness:
  "snd (run_validators item_update_post_validators (sword_update ''123'')) = []
   \<and> body (sword_update ''123'') ''security_code'' = ''123''
   \<and> req_file (sword_update ''123'') = None
   \<and> item_coll catalog ''i1'' = Some sword
   \<and> imgUrl sword = Some ''https://img.example/i1.png''
   \<and> item_coll (snd (item_update_post sample_env (sword_update ''123'') catalog)) ''i1'' =
        Some \<lparr>item_id = ''i1'', name = ''Sword'', description = ''A &lt;sharp&gt; blade'',
              quality = ''Epic'', slot = ''s1'', imgUrl = Some ''#''\<rparr>"
proof -
  have nf: "req_file (sword_update ''123'') = None"
    by (simp add: sword_update_def)
  have stored: "item_coll catalog (params_id (sword_update ''123'')) = Some sword"
    by (simp add: catalog_def sword_update_def)
  have body: "body (sword_update ''123'') = form (sword_fields @ [(''security_code'', ''123'')])"
    by (simp add: sword_update_def)
  have pid: "params_id (sword_update ''123'') = ''i1''"
    by (simp add: sword_update_def)
  show ?thesis
    using update_no_file_sets_sentinel [OF sword_update_errors sword_update_code nf stored,
        of sample_env]
    by (simp add: sword_update_errors sword_update_code nf pid)
      (simp add: catalog_def sword_def body sword_fields_def eval_strings)
qed

subsection \<open>Delete\<close>

lemma shield_instances:
  "ItemInstance_find ''i2'' catalog =
     [\<lparr>instance_id = ''n1'', instance_item = ''i2'', seller = ''v1'', num_of_stocks = 4\<rparr>]"
  by (simp add: ItemInstance_find_def catalog_def)

lemma sword_instances: "ItemInstance_find ''i1'' catalog = []"
  by (simp add: ItemInstance_find_def catalog_def)

lemma delete_post_simps:
  "params_id (delete_post i j c) = i"
  "body (delete_post i j c) ''itemid'' = j"
  "body (delete_post i j c) ''security_code'' = c"
  by (simp_all add: delete_post_def form_def)

text \<open>
  When the hidden field names the item of the route, the record of that item is
  removed exactly when no instance refers to it and the code is \<^verbatim>\<open>123\<close>.
\<close>

lemma delete_post_same_id:
  assumes "body req ''itemid'' = params_id req"
    and "item_coll w (params_id req) \<noteq> None"
  shows "(item_coll (snd (item_delete_post req w)) (params_id req) = None) =
           (length (ItemInstance_find (params_id req) w) = 0
            \<and> body req ''security_code'' = ''123'')"
  using assms
  by (auto simp: item_delete_post_def populate_item_def Item_findByIdAndDelete_def Let_def)

text \<open>
  C3. A delete request for an item that at least one instance refers to removes
  nothing, whatever the security code: the handler makes one call, the render of the
  delete page with the item, its instances, the code as posted and the error
  \<^verbatim>\<open>Wrong security code.\<close>; the state is the one it found.
\<close>

theorem delete_refused_with_instances:
  assumes "ItemInstance_find (params_id req) w \<noteq> []"
  shows "item_delete_post req w =
    ([Render ''item_delete''
        ((titled ''Delete Item'')
           \<lparr>item := Some (found (item_coll w (params_id req))),
            itemInstances := Some (populate_item w (ItemInstance_find (params_id req) w)),
            code := Some (body req ''security_code''),
            error := Some ''Wrong security code.''\<rparr>)], w)"
  using assms
  by (simp add: item_delete_post_def Item_findById_def populate_item_def)

theorem delete_refused_with_instances_witness:
  "ItemInstance_find (params_id (delete_post ''i2'' ''i2'' ''123'')) catalog \<noteq> []
   \<and> body (delete_post ''i2'' ''i2'' ''123'') ''security_code'' = ''123''
   \<and> item_delete_post (delete_post ''i2'' ''i2'' ''123'') catalog =
      ([Render ''item_delete''
          ((titled ''Delete Item'')
             \<lparr>item := Some (Doc shield),
              itemInstances := Some
                [(\<lparr>instance_id = ''n1'', instance_item = ''i2'', seller = ''v1'',
                   num_of_stocks = 4\<rparr>, Some shield)],
              code := Some ''123'',
              error := Some ''Wrong security code.''\<rparr>)], catalog)"
proof -
  have blocked: "ItemInstance_find (params_id (delete_post ''i2'' ''i2'' ''123'')) catalog \<noteq> []"
    by (simp add: delete_post_simps shield_instances)
  have shield_stored: "item_coll catalog ''i2'' = Some shield"
    by (simp add: catalog_def)
  show ?thesis
    using delete_refused_with_instances [OF blocked]
    by (simp add: delete_post_simps shield_instances populate_item_def shield_stored found_def)
qed

text \<open>
  C1 asks that the record named by the route's identifier be removed exactly when no
  instance refers to that identifier and the code is \<^verbatim>\<open>123\<close>. The handler
  counts the instances of the route's identifier and deletes the record named by the
  form field \<^verbatim>\<open>itemid\<close>. On the request posted to the sword's route with the
  shield's identifier in the field, the sword has no instance and the code is right,
  the answer is the redirect to the item list, the sword stays stored and the shield
  (which has an instance) is removed.
\<close>

theorem delete_post_cross_ids:
  "item_coll catalog ''i1'' = Some sword
   \<and> length (ItemInstance_find ''i1'' catalog) = 0
   \<and> body (delete_post ''i1'' ''i2'' ''123'') ''security_code'' = ''123''
   \<and> fst (item_delete_post (delete_post ''i1'' ''i2'' ''123'') catalog) =
        [Redirect ''/catalog/items'']
   \<and> item_coll (snd (item_delete_post (delete_post ''i1'' ''i2'' ''123'') catalog)) ''i1'' =
        Some sword
   \<and> item_coll (snd (item_delete_post (delete_post ''i1'' ''i2'' ''123'') catalog)) ''i2'' = None"
  by (simp add: item_delete_post_def delete_post_simps sword_instances populate_item_def
      Item_findByIdAndDelete_def)
    (simp add: catalog_def)

text \<open>
  C10. The identifier whose item is fetched and whose instances are counted (the
  route's) and the identifier whose record is deleted (the form field
  \<^verbatim>\<open>itemid\<close>) are read from different places: there is a request in which the
  two differ and the gate passes, the record named by the field is removed and the
  record named by the route stays stored.
\<close>

theorem delete_post_checks_route_id_deletes_body_id:
  "\<exists>req w. body req ''itemid'' \<noteq> params_id req
     \<and> length (ItemInstance_find (params_id req) w) = 0
     \<and> body req ''security_code'' = ''123''
     \<and> item_coll w (body req ''itemid'') \<noteq> None
     \<and> item_coll (snd (item_delete_post req w)) (body req ''itemid'') = None
     \<and> item_coll w (params_id req) \<noteq> None
     \<and> item_coll (snd (item_delete_post req w)) (params_id req) = item_coll w (params_id req)"
proof (intro exI conjI)
  let ?r = "delete_post ''i1'' ''i2'' ''123''"
  show "body ?r ''itemid'' \<noteq> params_id ?r"
    by (simp add: delete_post_simps)
  show "length (ItemInstance_find (params_id ?r) catalog) = 0"
    by (simp add: delete_post_simps sword_instances)
  show "body ?r ''security_code'' = ''123''"
    by (simp add: delete_post_simps)
  show "item_coll catalog (body ?r ''itemid'') \<noteq> None"
    by (simp add: delete_post_simps catalog_def)
  show "item_coll (snd (item_delete_post ?r catalog)) (body ?r ''itemid'') = None"
    by (simp add: item_delete_post_def delete_post_simps sword_instances populate_item_def
        Item_findByIdAndDelete_def)
  show "item_coll catalog (params_id ?r) \<noteq> None"
    by (simp add: delete_post_simps catalog_def)
  show "item_coll (snd (item_delete_post ?r catalog)) (params_id ?r) =
      item_coll catalog (params_id ?r)"
    by (simp add: item_delete_post_def delete_post_simps sword_instances populate_item_def
        Item_findByIdAndDelete_def)
qed

text \<open>
  Whenever the item of a delete page is not stored, the handler calls the redirect
  and then the render.
\<close>

lemma delete_get_missing_item_trace:
  assumes "item_coll w (params_id req) = None"
  shows "\<exists>l. fst (item_delete_get req w) = [Redirect ''/catalog/items'', Render ''item_delete'' l]"
  using assms
  by (simp add: item_delete_get_def Item_findById_def)

text \<open>
  C8 asks that the delete page of an item that is not stored answer with the
  redirect to the item list and render nothing. The branch redirects and does not
  return: for the identifier \<^verbatim>\<open>i9\<close>, which names no stored item, the handler
  calls the redirect and then the render of the delete page with a null item.
\<close>

theorem delete_get_missing_item_also_renders:
  "item_coll catalog (params_id missing_item_get) = None
   \<and> item_delete_get missing_item_get catalog =
      ([Redirect ''/catalog/items'',
        Render ''item_delete''
          ((titled ''Delete Item'')\<lparr>item := Some Null, itemInstances := Some []\<rparr>)],
       catalog)"
  by (simp add: item_delete_get_def missing_item_get_def Item_findById_def catalog_def
      ItemInstance_find_def populate_item_def found_def)

subsection \<open>Refused requests\<close>

text \<open>
  C9. A refused update (validation errors or a wrong code) and a refused delete
  (instances of the route's item or a wrong code) each make one render call and
  leave the state as it was; run again on the state they left, they make the same
  call and leave the same state.
\<close>

theorem refused_requests_idempotent:
  "(snd (run_validators item_update_post_validators requ) \<noteq> []
      \<or> body requ ''security_code'' \<noteq> ''123'' \<longrightarrow>
      (\<exists>l. item_update_post e requ w = ([Render ''item_form'' l], w)
           \<and> item_update_post e' requ (snd (item_update_post e requ w)) =
               ([Render ''item_form'' l], w)))
   \<and> (ItemInstance_find (params_id reqd) w \<noteq> []
      \<or> body reqd ''security_code'' \<noteq> ''123'' \<longrightarrow>
      (\<exists>l. item_delete_post reqd w = ([Render ''item_delete'' l], w)
           \<and> item_delete_post reqd (snd (item_delete_post reqd w)) =
               ([Render ''item_delete'' l], w)))"
  by (auto simp: item_update_post_def update_validators_run sanitized_simps
      item_delete_post_def populate_item_def Let_def)

theorem refused_requests_idempotent_witness:
  "body (sword_update ''000'') ''security_code'' \<noteq> ''123''
   \<and> ItemInstance_find (params_id (delete_post ''i2'' ''i2'' ''123'')) catalog \<noteq> []
   \<and> (\<exists>l. item_update_post sample_env (sword_update ''000'') catalog =
              ([Render ''item_form'' l], catalog)
          \<and> item_update_post sample_env (sword_update ''000'')
               (snd (item_update_post sample_env (sword_update ''000'') catalog)) =
              ([Render ''item_form'' l], catalog))
   \<and> (\<exists>l. item_delete_post (delete_post ''i2'' ''i2'' ''123'') catalog =
              ([Render ''item_delete'' l], catalog)
          \<and> item_delete_post (delete_post ''i2'' ''i2'' ''123'')
               (snd (item_delete_post (delete_post ''i2'' ''i2'' ''123'') catalog)) =
              ([Render ''item_delete'' l], catalog))"
proof -
  have wrong: "body (sword_update ''000'') ''security_code'' \<noteq> ''123''"
    by (simp add: sword_update_code)
  have blocked: "ItemInstance_find (params_id (delete_post ''i2'' ''i2'' ''123'')) catalog \<noteq> []"
    by (simp add: delete_post_simps shield_instances)
  show ?thesis
    using refused_requests_idempotent [of "sword_update ''000''" sample_env catalog sample_env
        "delete_post ''i2'' ''i2'' ''123''"] wrong blocked
    by simp
qed

end
